theory Spec2Isabelle
  imports Main "HOL-Library.AList"
begin

section \<open>Python values used by mnist.py\<close>

text \<open>
  The exceptions the modelled statements can raise: \<open>xs[i]\<close> out of range
  (\<open>IndexError\<close>), \<open>d[k]\<close> on a missing key (\<open>KeyError\<close>) and \<open>int(s)\<close> on a
  string that is no integer literal (\<open>ValueError\<close>).
\<close>

datatype py_error = IndexError | KeyError | ValueError

text \<open>
  Python lists are mutable objects that are shared by reference. A list object lives in
  a heap; a reference is its position there. Allocation appends, so a new object never
  coincides with an existing one.
\<close>

type_synonym ref = nat

type_synonym heap = "string list list"

definition alloc :: "heap \<Rightarrow> string list \<Rightarrow> ref \<times> heap" where
  "alloc h xs = (length h, h @ [xs])"

text \<open>
  The values a descriptor is made of. A dict is kept by value as an association list in
  insertion order; a list is a reference into the heap.
\<close>

datatype pyval =
    PNone
  | PStr string
  | PInt int
  | PList ref
  | PDict "(string \<times> pyval) list"

text \<open>
  \<open>xs[i]\<close> and \<open>xs[i] = v\<close>: a negative index counts from the end, an index outside
  \<open>-len(xs) .. len(xs) - 1\<close> raises \<open>IndexError\<close>.
\<close>

definition py_index :: "'a list \<Rightarrow> int \<Rightarrow> nat option" where
  "py_index xs i =
     (let n = int (length xs); j = (if i < 0 then i + n else i)
      in if 0 \<le> j \<and> j < n then Some (nat j) else None)"

definition list_getitem :: "'a list \<Rightarrow> int \<Rightarrow> py_error + 'a" where
  "list_getitem xs i =
     (case py_index xs i of None \<Rightarrow> Inl IndexError | Some j \<Rightarrow> Inr (xs ! j))"

definition list_setitem :: "'a list \<Rightarrow> int \<Rightarrow> 'a \<Rightarrow> py_error + 'a list" where
  "list_setitem xs i v =
     (case py_index xs i of None \<Rightarrow> Inl IndexError | Some j \<Rightarrow> Inr (xs[j := v]))"

text \<open>
  \<open>d[k]\<close> on a dict with string keys; the key is \<open>opts.job_name\<close>, which may be
  \<open>None\<close>, and \<open>None\<close> equals no string.
\<close>

definition dict_getitem :: "(string \<times> 'v) list \<Rightarrow> string option \<Rightarrow> py_error + 'v" where
  "dict_getitem d k =
     (case k of
        None \<Rightarrow> Inl KeyError
      | Some s \<Rightarrow> (case map_of d s of None \<Rightarrow> Inl KeyError | Some v \<Rightarrow> Inr v))"

text \<open>
  \<open>s.split(sep)\<close> for a one-character separator: cut at every occurrence, empty pieces
  kept, so the result has one more element than \<open>s\<close> has separators.
\<close>

fun split_acc :: "char \<Rightarrow> string \<Rightarrow> string \<Rightarrow> string list" where
  "split_acc sep acc [] = [rev acc]"
| "split_acc sep acc (c # cs) =
     (if c = sep then rev acc # split_acc sep [] cs else split_acc sep (c # acc) cs)"

definition split :: "string \<Rightarrow> char \<Rightarrow> string list" where
  "split s sep = split_acc sep [] s"

section \<open>parse_args: the hidden_units list\<close>

text \<open>
  \<open>int(s)\<close> on an ASCII string: surrounding whitespace (tab, line feed, vertical tab,
  form feed, carriage return, space) is dropped, one sign is allowed, then decimal digits,
  where single underscores may stand between digits. Anything else raises \<open>ValueError\<close>.
\<close>

definition is_space :: "char \<Rightarrow> bool" where
  "is_space c = ((of_char c :: nat) \<in> set [9, 10, 11, 12, 13, 32])"

definition is_digit :: "char \<Rightarrow> bool" where
  "is_digit c = (48 \<le> (of_char c :: nat) \<and> (of_char c :: nat) \<le> 57)"

definition digit_val :: "char \<Rightarrow> nat" where
  "digit_val c = of_char c - 48"

definition strip :: "string \<Rightarrow> string" where
  "strip s = rev (dropWhile is_space (rev (dropWhile is_space s)))"

fun parse_digits :: "nat \<Rightarrow> bool \<Rightarrow> string \<Rightarrow> nat option" where
  "parse_digits acc after_digit [] = (if after_digit then Some acc else None)"
| "parse_digits acc after_digit (c # cs) =
     (if is_digit c then parse_digits (10 * acc + digit_val c) True cs
      else if c = CHR ''_'' \<and> after_digit then parse_digits acc False cs
      else None)"

definition py_int :: "string \<Rightarrow> py_error + int" where
  "py_int s =
     (case strip s of
        [] \<Rightarrow> Inl ValueError
      | c # cs \<Rightarrow>
          if c = CHR ''-'' then
            (case parse_digits 0 False cs of None \<Rightarrow> Inl ValueError | Some n \<Rightarrow> Inr (- int n))
          else if c = CHR ''+'' then
            (case parse_digits 0 False cs of None \<Rightarrow> Inl ValueError | Some n \<Rightarrow> Inr (int n))
          else
            (case parse_digits 0 False (c # cs) of None \<Rightarrow> Inl ValueError | Some n \<Rightarrow> Inr (int n)))"

text \<open>The comprehension \<open>[int(n) for n in ...]\<close>: the first failing element raises.\<close>

fun int_each :: "string list \<Rightarrow> py_error + int list" where
  "int_each [] = Inr []"
| "int_each (n # ns) =
     (case py_int n of
        Inl e \<Rightarrow> Inl e
      | Inr v \<Rightarrow> (case int_each ns of Inl e \<Rightarrow> Inl e | Inr vs \<Rightarrow> Inr (v # vs)))"

text \<open>Line 84: \<open>opts.hidden_units = [int(n) for n in opts.hidden_units.split(',')]\<close>.\<close>

definition parse_hidden_units :: "string \<Rightarrow> py_error + int list" where
  "parse_hidden_units s = int_each (split s CHR '','')"

section \<open>make_tf_config\<close>

text \<open>
  The fields of \<open>opts\<close> that \<open>make_tf_config\<close> reads. After \<open>parse_args\<close> the two host
  fields hold list objects, so they are references.
\<close>

record opts =
  job_name :: "string option"
  task_index :: int
  ps_hosts :: ref
  worker_hosts :: ref

text \<open>
  What a call leaves behind: the returned value or the exception raised, the messages
  given to \<open>tf.logging.warn\<close> in order, and the heap after the call.
\<close>

record outcome =
  result :: "py_error + pyval"
  warned :: "string list"
  final :: heap

text \<open>
  \<open>'{}'.format(x)\<close> for the two kinds of argument the warnings format: \<open>opts.job_name\<close>
  and a host list. The list form quotes each element with single quotes, which is what
  Python prints for strings free of quotes, backslashes and control characters.
\<close>

definition format_job_name :: "string option \<Rightarrow> string" where
  "format_job_name j = (case j of None \<Rightarrow> ''None'' | Some s \<Rightarrow> s)"

fun join :: "string \<Rightarrow> string list \<Rightarrow> string" where
  "join sep [] = []"
| "join sep [x] = x"
| "join sep (x # y # ys) = x @ sep @ join sep (y # ys)"

definition format_hosts :: "string list \<Rightarrow> string" where
  "format_hosts xs = ''['' @ join '', '' (map (\<lambda>x. [CHR 0x27] @ x @ [CHR 0x27]) xs) @ '']''"

definition warn_incomplete :: string where
  "warn_incomplete =
     ''Distributed setting is incomplete. You must pass job_name, ps_hosts, and worker_hosts.''"

definition warn_job_name :: "string option \<Rightarrow> string" where
  "warn_job_name j = ''Expected job_name of worker or ps. Received '' @ format_job_name j @ ''.''"

definition warn_ps_hosts :: "string list \<Rightarrow> string" where
  "warn_ps_hosts ps =
     ''Expected ps_hosts, list of hostname:port pairs. Got '' @ format_hosts ps @ ''. '' @
     ''Example: --ps_hosts '' @ [CHR 0x22] @ ''localhost:2224'' @ [CHR 0x22] @
     '' or --ps_hosts '' @ [CHR 0x22] @ ''localhost:2224,localhost:2225''"

definition warn_worker_hosts :: "string list \<Rightarrow> string" where
  "warn_worker_hosts ws =
     ''Expected worker_hosts, list of hostname:port pairs. Got '' @ format_hosts ws @ ''. '' @
     ''Example: --worker_hosts '' @ [CHR 0x22] @ ''localhost:2222,localhost:2223'' @ [CHR 0x22]"

definition warn_single :: string where
  "warn_single = ''Ignoring distributed arguments. Running single mode.''"

text \<open>Lines 104 to 113: the warnings of the incomplete case, in the order emitted.\<close>

definition incomplete_warnings :: "string option \<Rightarrow> string list \<Rightarrow> string list \<Rightarrow> string list" where
  "incomplete_warnings j ps ws =
     [warn_incomplete]
     @ (if j = None then [warn_job_name j] else [])
     @ (if ps = [] then [warn_ps_hosts ps] else [])
     @ (if ws = [] then [warn_worker_hosts ws] else [])
     @ [warn_single]"

text \<open>
  Lines 116 to 127: the dict literal. The inner dicts \<open>task\<close> and \<open>cluster\<close> are passed
  as they stand when the function returns; the cluster lists stay references.
\<close>

definition descriptor :: "(string \<times> pyval) list \<Rightarrow> (string \<times> ref) list \<Rightarrow> pyval" where
  "descriptor task cluster =
     PDict [(''task'', PDict task),
            (''cluster'', PDict (map (\<lambda>(k, r). (k, PList r)) cluster)),
            (''environment'', PStr ''cloud'')]"

definition job_value :: "string option \<Rightarrow> pyval" where
  "job_value j = (case j of None \<Rightarrow> PNone | Some s \<Rightarrow> PStr s)"

text \<open>
  Lines 116 to 135, reached when all three settings are present. The master list
  \<open>[opts.worker_hosts[0]]\<close> is a new object; \<open>'worker'\<close> and \<open>'ps'\<close> are bound to the
  very list objects of \<open>opts\<close>. Line 130 reads the entry of the list named by
  \<open>opts.job_name\<close> and may raise; line 131 stores into that same list object; lines 132
  to 134 retag worker 0 and store into the master list.
\<close>

definition build_tf_config :: "opts \<Rightarrow> heap \<Rightarrow> outcome" where
  "build_tf_config opts h =
     (case list_getitem (h ! worker_hosts opts) 0 of
        Inl e \<Rightarrow> \<lparr>result = Inl e, warned = [], final = h\<rparr>
      | Inr w0 \<Rightarrow>
          (let (m, h1) = alloc h [w0];
               task = [(''type'', job_value (job_name opts)), (''index'', PInt (task_index opts))];
               cluster = [(''master'', m), (''worker'', worker_hosts opts), (''ps'', ps_hosts opts)]
           in case dict_getitem cluster (job_name opts) of
                Inl e \<Rightarrow> \<lparr>result = Inl e, warned = [], final = h1\<rparr>
              | Inr r \<Rightarrow>
                  (case list_getitem (h1 ! r) (task_index opts) of
                     Inl e \<Rightarrow> \<lparr>result = Inl e, warned = [], final = h1\<rparr>
                   | Inr entry \<Rightarrow>
                       (case list_getitem (split entry CHR '':'') 1 of
                          Inl e \<Rightarrow> \<lparr>result = Inl e, warned = [], final = h1\<rparr>
                        | Inr port \<Rightarrow>
                            (let local_ip = ''localhost:'' @ port in
                             case list_setitem (h1 ! r) (task_index opts) local_ip of
                               Inl e \<Rightarrow> \<lparr>result = Inl e, warned = [], final = h1\<rparr>
                             | Inr xs \<Rightarrow>
                                 (let h2 = h1[r := xs] in
                                  if job_name opts = Some ''worker'' \<and> task_index opts = 0 then
                                    (case list_setitem (h2 ! m) 0 local_ip of
                                       Inl e \<Rightarrow> \<lparr>result = Inl e, warned = [], final = h2\<rparr>
                                     | Inr ys \<Rightarrow>
                                         \<lparr>result = Inr (descriptor
                                                          (AList.update ''type'' (PStr ''master'') task)
                                                          cluster),
                                          warned = [], final = h2[m := ys]\<rparr>)
                                  else \<lparr>result = Inr (descriptor task cluster),
                                        warned = [], final = h2\<rparr>))))))"

text \<open>
  Lines 99 to 135. \<open>not opts.ps_hosts\<close> holds of a list exactly when it is empty.
\<close>

definition make_tf_config :: "opts \<Rightarrow> heap \<Rightarrow> outcome" where
  "make_tf_config opts h =
     (let unset = [job_name opts = None, h ! ps_hosts opts = [], h ! worker_hosts opts = []] in
      if list_all (\<lambda>b. b) unset then \<lparr>result = Inr (PDict []), warned = [], final = h\<rparr>
      else if list_ex (\<lambda>b. b) unset then
        \<lparr>result = Inr (PDict []),
         warned = incomplete_warnings (job_name opts) (h ! ps_hosts opts) (h ! worker_hosts opts),
         final = h\<rparr>
      else build_tf_config opts h)"

section \<open>Reading a descriptor\<close>

fun dict_get :: "pyval \<Rightarrow> string \<Rightarrow> pyval option" where
  "dict_get (PDict kvs) k = map_of kvs k"
| "dict_get _ k = None"

definition task_type :: "pyval \<Rightarrow> pyval option" where
  "task_type d = (case dict_get d ''task'' of None \<Rightarrow> None | Some t \<Rightarrow> dict_get t ''type'')"

text \<open>The contents of \<open>d['cluster'][name]\<close> in heap \<open>h\<close>.\<close>

definition cluster_list :: "heap \<Rightarrow> pyval \<Rightarrow> string \<Rightarrow> string list option" where
  "cluster_list h d name =
     (case dict_get d ''cluster'' of
        None \<Rightarrow> None
      | Some c \<Rightarrow> (case dict_get c name of Some (PList r) \<Rightarrow> Some (h ! r) | _ \<Rightarrow> None))"

text \<open>The references of \<open>opts\<close> point to objects of the heap.\<close>

definition valid_opts :: "heap \<Rightarrow> opts \<Rightarrow> bool" where
  "valid_opts h opts = (ps_hosts opts < length h \<and> worker_hosts opts < length h)"

text \<open>All three settings are present: neither test of lines 101 and 103 fires.\<close>

definition complete :: "heap \<Rightarrow> opts \<Rightarrow> bool" where
  "complete h opts =
     (job_name opts \<noteq> None \<and> h ! ps_hosts opts \<noteq> [] \<and> h ! worker_hosts opts \<noteq> [])"

text \<open>Some but not all of the three settings are present: the test of line 103 fires.\<close>

definition incomplete :: "heap \<Rightarrow> opts \<Rightarrow> bool" where
  "incomplete h opts =
     ((job_name opts = None \<or> h ! ps_hosts opts = [] \<or> h ! worker_hosts opts = []) \<and>
      \<not> (job_name opts = None \<and> h ! ps_hosts opts = [] \<and> h ! worker_hosts opts = []))"

text \<open>
  The list that the cluster dict of lines 121 to 125 holds under the key \<open>opts.job_name\<close>,
  as it is before line 131 stores into it: the one-element master list, the worker list or
  the ps list; no list for any other name.
\<close>

definition role_list :: "heap \<Rightarrow> opts \<Rightarrow> string list option" where
  "role_list h opts =
     (if job_name opts = Some ''master'' then Some [h ! worker_hosts opts ! 0]
      else if job_name opts = Some ''worker'' then Some (h ! worker_hosts opts)
      else if job_name opts = Some ''ps'' then Some (h ! ps_hosts opts)
      else None)"

text \<open>
  The list object of \<open>opts\<close> that this key names: \<open>'worker'\<close> and \<open>'ps'\<close> name the
  lists of \<open>opts\<close> themselves, \<open>'master'\<close> names the new list.
\<close>

definition own_ref :: "opts \<Rightarrow> ref option" where
  "own_ref opts =
     (if job_name opts = Some ''worker'' then Some (worker_hosts opts)
      else if job_name opts = Some ''ps'' then Some (ps_hosts opts)
      else None)"



text \<open>
  The reference that line 130 finds under the key \<open>opts.job_name\<close> once the key is known
  to be present: the list of \<open>opts\<close> that the key names, or else the new master list,
  which \<open>alloc\<close> places at \<open>length h\<close>.
\<close>

definition target :: "heap \<Rightarrow> opts \<Rightarrow> ref" where
  "target h opts = (case own_ref opts of None \<Rightarrow> length h | Some r \<Rightarrow> r)"

section \<open>Indexing and splitting\<close>

lemma py_index_less: "py_index xs i = Some j \<Longrightarrow> j < length xs"
  by (auto simp: py_index_def Let_def split: if_splits)

lemma py_index_zero: "xs \<noteq> [] \<Longrightarrow> py_index xs 0 = Some 0"
  by (simp add: py_index_def)

lemma list_getitem_zero: "xs \<noteq> [] \<Longrightarrow> list_getitem xs 0 = Inr (xs ! 0)"
  by (simp add: list_getitem_def py_index_zero)

lemma split_acc_length: "length (split_acc sep acc s) = Suc (count_list s sep)"
  by (induction s arbitrary: acc) auto

lemma split_port_iff: "(\<exists>p. list_getitem (split e sep) 1 = Inr p) \<longleftrightarrow> sep \<in> set e"
proof -
  have "(\<exists>p. list_getitem (split e sep) 1 = Inr p) \<longleftrightarrow> 1 < length (split e sep)"
    by (auto simp: list_getitem_def py_index_def Let_def)
  also have "\<dots> \<longleftrightarrow> count_list e sep \<noteq> 0"
    by (simp add: split_def split_acc_length)
  also have "\<dots> \<longleftrightarrow> sep \<in> set e"
    by (simp add: count_list_0_iff)
  finally show ?thesis .
qed

section \<open>The three outcomes of make_tf_config\<close>

lemma not_complete_empty:
  "\<not> complete h opts \<Longrightarrow> result (make_tf_config opts h) = Inr (PDict []) \<and> final (make_tf_config opts h) = h"
  by (auto simp: make_tf_config_def complete_def)

lemma complete_build: "complete h opts \<Longrightarrow> make_tf_config opts h = build_tf_config opts h"
  by (auto simp: make_tf_config_def complete_def)

lemma role_lookup:
  assumes "valid_opts h opts"
  shows "dict_getitem [(''master'', length h), (''worker'', worker_hosts opts), (''ps'', ps_hosts opts)]
           (job_name opts)
         = (case role_list h opts of None \<Rightarrow> Inl KeyError | Some xs \<Rightarrow> Inr (target h opts))"
  by (cases "job_name opts") (auto simp: dict_getitem_def role_list_def target_def own_ref_def)

lemma role_deref:
  assumes "valid_opts h opts" "role_list h opts = Some xs"
  shows "(h @ [[h ! worker_hosts opts ! 0]]) ! target h opts = xs"
  using assms
  by (auto simp: role_list_def target_def own_ref_def valid_opts_def nth_append split: if_splits)

text \<open>
  With the list objects of \<open>opts\<close> in the heap and a worker list that is not empty, the
  nested tests of \<open>build_tf_config\<close> come down to three questions: does the key name a
  list, is the index in range, does the entry have a second piece after the split.
\<close>

lemma build_normal:
  assumes v: "valid_opts h opts" and w: "h ! worker_hosts opts \<noteq> []"
  shows "build_tf_config opts h =
     (let h1 = h @ [[h ! worker_hosts opts ! 0]] in
      case role_list h opts of
        None \<Rightarrow> \<lparr>result = Inl KeyError, warned = [], final = h1\<rparr>
      | Some xs \<Rightarrow>
         (case py_index xs (task_index opts) of
            None \<Rightarrow> \<lparr>result = Inl IndexError, warned = [], final = h1\<rparr>
          | Some j \<Rightarrow>
             (case list_getitem (split (xs ! j) CHR '':'') 1 of
                Inl e \<Rightarrow> \<lparr>result = Inl e, warned = [], final = h1\<rparr>
              | Inr port \<Rightarrow>
                  (let h2 = h1[target h opts := xs[j := ''localhost:'' @ port]] in
                   if job_name opts = Some ''worker'' \<and> task_index opts = 0
                   then \<lparr>result = Inr (descriptor
                                         [(''type'', PStr ''master''), (''index'', PInt (task_index opts))]
                                         [(''master'', length h), (''worker'', worker_hosts opts),
                                          (''ps'', ps_hosts opts)]),
                         warned = [], final = h2[length h := [''localhost:'' @ port]]\<rparr>
                   else \<lparr>result = Inr (descriptor
                                         [(''type'', job_value (job_name opts)),
                                          (''index'', PInt (task_index opts))]
                                         [(''master'', length h), (''worker'', worker_hosts opts),
                                          (''ps'', ps_hosts opts)]),
                         warned = [], final = h2\<rparr>))))"
proof (cases "role_list h opts")
  case None
  then show ?thesis
    using w by (simp add: build_tf_config_def list_getitem_zero alloc_def role_lookup[OF v] Let_def)
next
  case (Some xs)
  note xs = Some
  note d = role_deref[OF v xs]
  show ?thesis
  proof (cases "py_index xs (task_index opts)")
    case None
    then show ?thesis
      using w xs d
      by (simp add: build_tf_config_def list_getitem_zero alloc_def role_lookup[OF v] Let_def
          list_getitem_def[of xs])
  next
    case (Some j)
    note j = Some
    show ?thesis
    proof (cases "list_getitem (split (xs ! j) CHR '':'') 1")
      case (Inl e)
      then show ?thesis
        using w xs d j
        by (simp add: build_tf_config_def list_getitem_zero alloc_def role_lookup[OF v] Let_def
            list_getitem_def[of xs])
    next
      case (Inr port)
      have m: "job_name opts = Some ''worker'' \<Longrightarrow>
               (h @ [[h ! worker_hosts opts ! 0]])[target h opts := ys] ! length h
               = [h ! worker_hosts opts ! 0]" for ys
        using v by (simp add: target_def own_ref_def valid_opts_def nth_append)
      show ?thesis
        using w xs d j Inr m
        by (simp add: build_tf_config_def list_getitem_zero alloc_def role_lookup[OF v] Let_def
            list_getitem_def[of xs] list_setitem_def py_index_zero)
    qed
  qed
qed

text \<open>What is known when a complete call returns a value.\<close>

lemma returned_cases:
  assumes v: "valid_opts h opts" and c: "complete h opts"
    and r: "result (make_tf_config opts h) = Inr d"
  obtains xs j port where
    "role_list h opts = Some xs"
    "py_index xs (task_index opts) = Some j"
    "list_getitem (split (xs ! j) CHR '':'') 1 = Inr port"
    "d = descriptor
           [(''type'', if job_name opts = Some ''worker'' \<and> task_index opts = 0
                       then PStr ''master'' else job_value (job_name opts)),
            (''index'', PInt (task_index opts))]
           [(''master'', length h), (''worker'', worker_hosts opts), (''ps'', ps_hosts opts)]"
    "final (make_tf_config opts h) =
       (let h2 = (h @ [[h ! worker_hosts opts ! 0]])[target h opts := xs[j := ''localhost:'' @ port]]
        in if job_name opts = Some ''worker'' \<and> task_index opts = 0
           then h2[length h := [''localhost:'' @ port]] else h2)"
proof -
  have w: "h ! worker_hosts opts \<noteq> []" using c by (simp add: complete_def)
  note n = build_normal[OF v w]
  from r have r': "result (build_tf_config opts h) = Inr d" by (simp add: complete_build[OF c])
  obtain xs where xs: "role_list h opts = Some xs"
    using r' n by (cases "role_list h opts") (simp_all add: Let_def)
  obtain j where j: "py_index xs (task_index opts) = Some j"
    using r' n xs by (cases "py_index xs (task_index opts)") (simp_all add: Let_def)
  obtain port where p: "list_getitem (split (xs ! j) CHR '':'') 1 = Inr port"
    using r' n xs j by (cases "list_getitem (split (xs ! j) CHR '':'') 1") (simp_all add: Let_def)
  have d: "d = descriptor
           [(''type'', if job_name opts = Some ''worker'' \<and> task_index opts = 0
                       then PStr ''master'' else job_value (job_name opts)),
            (''index'', PInt (task_index opts))]
           [(''master'', length h), (''worker'', worker_hosts opts), (''ps'', ps_hosts opts)]"
    using r' n xs j p by (auto simp: Let_def split: if_splits)
  have f: "final (make_tf_config opts h) =
       (let h2 = (h @ [[h ! worker_hosts opts ! 0]])[target h opts := xs[j := ''localhost:'' @ port]]
        in if job_name opts = Some ''worker'' \<and> task_index opts = 0
           then h2[length h := [''localhost:'' @ port]] else h2)"
    using n xs j p by (simp add: Let_def complete_build[OF c])
  show thesis using that[OF xs j p d f] .
qed


lemmas run_defs =
  make_tf_config_def build_tf_config_def alloc_def list_getitem_def list_setitem_def py_index_def
  dict_getitem_def descriptor_def job_value_def split_def Let_def

section \<open>The task type of a returned descriptor\<close>


section \<open>Claims about make_tf_config\<close>



text \<open>
  C2, as the code has it. The call returns a value exactly when the triple is not complete,
  or \<open>job_name\<close> is one of the three keys of the cluster dict, \<open>task_index\<close> is an index of
  the list under that key and the entry there contains \<open>':'\<close>. A complete call with any
  other \<open>job_name\<close> raises \<open>KeyError\<close>; the other failures raise \<open>IndexError\<close>.
\<close>

theorem returns_iff_addressable:
  assumes v: "valid_opts h opts"
  shows "((\<exists>d. result (make_tf_config opts h) = Inr d) \<longleftrightarrow>
            \<not> complete h opts \<or>
            (\<exists>xs j. role_list h opts = Some xs \<and> py_index xs (task_index opts) = Some j \<and>
                    CHR '':'' \<in> set (xs ! j))) \<and>
         (result (make_tf_config opts h) = Inl KeyError \<longleftrightarrow>
            complete h opts \<and> role_list h opts = None) \<and>
         (\<forall>e. result (make_tf_config opts h) = Inl e \<longrightarrow> e = KeyError \<or> e = IndexError)"
proof (cases "complete h opts")
  case False
  then show ?thesis using not_complete_empty[OF False] by simp
next
  case True
  have w: "h ! worker_hosts opts \<noteq> []" using True by (simp add: complete_def)
  note n = build_normal[OF v w]
  show ?thesis
  proof (cases "role_list h opts")
    case None
    then show ?thesis using n True by (simp add: complete_build Let_def)
  next
    case (Some xs)
    note xs = Some
    show ?thesis
    proof (cases "py_index xs (task_index opts)")
      case None
      then show ?thesis using n True xs by (simp add: complete_build Let_def)
    next
      case (Some j)
      show ?thesis
      proof (cases "list_getitem (split (xs ! j) CHR '':'') 1")
        case (Inl e)
        have "CHR '':'' \<notin> set (xs ! j)"
          using Inl split_port_iff[of "xs ! j" "CHR '':''"] by auto
        moreover have "e = IndexError"
          using Inl by (simp add: list_getitem_def split: option.splits)
        ultimately show ?thesis using n True xs Some Inl by (simp add: complete_build Let_def)
      next
        case (Inr port)
        have "CHR '':'' \<in> set (xs ! j)"
          using Inr split_port_iff[of "xs ! j" "CHR '':''"] by auto
        then show ?thesis using n True xs Some Inr by (simp add: complete_build Let_def)
      qed
    qed
  qed
qed

text \<open>The theorem at worker 1 of a two-worker cluster: the call returns.\<close>

theorem returns_iff_addressable_witness:
  "valid_opts [[''h3:2224''], [''h1:2222'', ''h2:2222'']] \<lparr>job_name = Some ''worker'', task_index = 1, ps_hosts = 0, worker_hosts = 1\<rparr> \<and> complete [[''h3:2224''], [''h1:2222'', ''h2:2222'']] \<lparr>job_name = Some ''worker'', task_index = 1, ps_hosts = 0, worker_hosts = 1\<rparr> \<and>
   role_list [[''h3:2224''], [''h1:2222'', ''h2:2222'']] \<lparr>job_name = Some ''worker'', task_index = 1, ps_hosts = 0, worker_hosts = 1\<rparr> = Some [''h1:2222'', ''h2:2222''] \<and>
   (\<exists>d. result (make_tf_config \<lparr>job_name = Some ''worker'', task_index = 1, ps_hosts = 0, worker_hosts = 1\<rparr> [[''h3:2224''], [''h1:2222'', ''h2:2222'']]) = Inr d)"
proof -
  have a: "valid_opts [[''h3:2224''], [''h1:2222'', ''h2:2222'']] \<lparr>job_name = Some ''worker'', task_index = 1, ps_hosts = 0, worker_hosts = 1\<rparr>" by (simp add: valid_opts_def)
  have b: "complete [[''h3:2224''], [''h1:2222'', ''h2:2222'']] \<lparr>job_name = Some ''worker'', task_index = 1, ps_hosts = 0, worker_hosts = 1\<rparr>" by (simp add: complete_def)
  have c: "role_list [[''h3:2224''], [''h1:2222'', ''h2:2222'']] \<lparr>job_name = Some ''worker'', task_index = 1, ps_hosts = 0, worker_hosts = 1\<rparr> = Some [''h1:2222'', ''h2:2222'']" by (simp add: role_list_def)
  have d: "py_index [''h1:2222'', ''h2:2222''] (task_index \<lparr>job_name = Some ''worker'', task_index = 1, ps_hosts = 0, worker_hosts = 1\<rparr>) = Some 1"
    by (simp add: py_index_def)
  have "\<exists>d. result (make_tf_config \<lparr>job_name = Some ''worker'', task_index = 1, ps_hosts = 0, worker_hosts = 1\<rparr> [[''h3:2224''], [''h1:2222'', ''h2:2222'']]) = Inr d"
    using returns_iff_addressable[OF a] c d by simp
  then show ?thesis using a b c by blast
qed

text \<open>
  C2 as stated fails: an index past the end of the worker list, an entry without \<open>':'\<close>,
  and a \<open>job_name\<close> that is no key of the cluster dict each raise.
\<close>

theorem make_tf_config_raises_counterexample:
  "result (make_tf_config \<lparr>job_name = Some ''worker'', task_index = 5, ps_hosts = 0, worker_hosts = 1\<rparr> [[''h3:2224''], [''h1:2222'', ''h2:2222'']]) = Inl IndexError \<and>
   result (make_tf_config \<lparr>job_name = Some ''worker'', task_index = 0, ps_hosts = 0, worker_hosts = 1\<rparr> [[''h3:2224''], [''h1'']]) = Inl IndexError \<and>
   result (make_tf_config \<lparr>job_name = Some ''chief'', task_index = 0, ps_hosts = 0, worker_hosts = 1\<rparr> [[''h3:2224''], [''h1:2222'', ''h2:2222'']]) = Inl KeyError"
  by (simp add: run_defs)

text \<open>
  C3, as the code has it. \<open>cluster['worker']\<close> and \<open>cluster['ps']\<close> are the list objects of
  \<open>opts\<close>, so the store of line 131 lands in \<open>opts\<close>. A call that raises or returns the empty
  descriptor leaves every list object as it was. A call that returns a descriptor changes
  only the list of \<open>opts\<close> that \<open>job_name\<close> names (\<open>worker_hosts\<close> for \<open>'worker'\<close>, \<open>ps_hosts\<close>
  for \<open>'ps'\<close>, none for \<open>'master'\<close>), and there only the entry at \<open>task_index\<close>, which
  becomes \<open>'localhost:'\<close> followed by its port.
\<close>

theorem opts_lists_after_call:
  assumes v: "valid_opts h opts" and r: "r < length h"
  shows "(if (\<exists>d. result (make_tf_config opts h) = Inr d \<and> d \<noteq> PDict []) \<and> own_ref opts = Some r
          then \<exists>j port. py_index (h ! r) (task_index opts) = Some j \<and>
                 list_getitem (split (h ! r ! j) CHR '':'') 1 = Inr port \<and>
                 final (make_tf_config opts h) ! r = (h ! r)[j := ''localhost:'' @ port]
          else final (make_tf_config opts h) ! r = h ! r)"
proof (cases "complete h opts")
  case False
  then show ?thesis using not_complete_empty[OF False] by simp
next
  case True
  have w: "h ! worker_hosts opts \<noteq> []" using True by (simp add: complete_def)
  note n = build_normal[OF v w]
  show ?thesis
  proof (cases "\<exists>d. result (make_tf_config opts h) = Inr d")
    case False
    then have "final (make_tf_config opts h) = h @ [[h ! worker_hosts opts ! 0]]"
      using n True
      by (simp add: complete_build Let_def split: option.splits sum.splits if_splits)
    then show ?thesis using False r by (auto simp: nth_append)
  next
    case returned: True
    then obtain d where d: "result (make_tf_config opts h) = Inr d" by blast
    from v True d obtain xs j port where
      xs: "role_list h opts = Some xs" and
      j: "py_index xs (task_index opts) = Some j" and
      p: "list_getitem (split (xs ! j) CHR '':'') 1 = Inr port" and
      dd: "d = descriptor
           [(''type'', if job_name opts = Some ''worker'' \<and> task_index opts = 0
                       then PStr ''master'' else job_value (job_name opts)),
            (''index'', PInt (task_index opts))]
           [(''master'', length h), (''worker'', worker_hosts opts), (''ps'', ps_hosts opts)]" and
      f: "final (make_tf_config opts h) =
       (let h2 = (h @ [[h ! worker_hosts opts ! 0]])[target h opts := xs[j := ''localhost:'' @ port]]
        in if job_name opts = Some ''worker'' \<and> task_index opts = 0
           then h2[length h := [''localhost:'' @ port]] else h2)"
      by (rule returned_cases)
    have ne: "d \<noteq> PDict []" by (simp add: dd descriptor_def)
    have fr: "final (make_tf_config opts h) ! r
              = (if target h opts = r then xs[j := ''localhost:'' @ port] else h ! r)"
      using r by (simp add: f Let_def nth_append nth_list_update)
    show ?thesis
    proof (cases "own_ref opts = Some r")
      case True
      then have "target h opts = r" by (simp add: target_def)
      moreover have "xs = h ! r"
        using xs True by (auto simp: role_list_def own_ref_def split: if_splits)
      ultimately show ?thesis using True d ne j p fr by auto
    next
      case False
      then have "target h opts \<noteq> r" using r by (auto simp: target_def split: option.splits)
      then show ?thesis using False fr by simp
    qed
  qed
qed

text \<open>The theorem at worker 0, for the worker list of \<open>opts\<close>.\<close>

theorem opts_lists_after_call_witness:
  "valid_opts [[''h3:2224''], [''h1:2222'', ''h2:2222'']] \<lparr>job_name = Some ''worker'', task_index = 0, ps_hosts = 0, worker_hosts = 1\<rparr> \<and> (1::nat) < length [[''h3:2224''], [''h1:2222'', ''h2:2222'']] \<and> own_ref \<lparr>job_name = Some ''worker'', task_index = 0, ps_hosts = 0, worker_hosts = 1\<rparr> = Some 1 \<and>
   (\<exists>j port. py_index ([[''h3:2224''], [''h1:2222'', ''h2:2222'']] ! 1) (task_index \<lparr>job_name = Some ''worker'', task_index = 0, ps_hosts = 0, worker_hosts = 1\<rparr>) = Some j \<and>
      list_getitem (split ([[''h3:2224''], [''h1:2222'', ''h2:2222'']] ! 1 ! j) CHR '':'') 1 = Inr port \<and>
      final (make_tf_config \<lparr>job_name = Some ''worker'', task_index = 0, ps_hosts = 0, worker_hosts = 1\<rparr> [[''h3:2224''], [''h1:2222'', ''h2:2222'']]) ! 1 = ([[''h3:2224''], [''h1:2222'', ''h2:2222'']] ! 1)[j := ''localhost:'' @ port])"
proof -
  have a: "valid_opts [[''h3:2224''], [''h1:2222'', ''h2:2222'']] \<lparr>job_name = Some ''worker'', task_index = 0, ps_hosts = 0, worker_hosts = 1\<rparr>" by (simp add: valid_opts_def)
  have b: "(1::nat) < length [[''h3:2224''], [''h1:2222'', ''h2:2222'']]" by simp
  have c: "own_ref \<lparr>job_name = Some ''worker'', task_index = 0, ps_hosts = 0, worker_hosts = 1\<rparr> = Some 1" by (simp add: own_ref_def)
  have d: "\<exists>d. result (make_tf_config \<lparr>job_name = Some ''worker'', task_index = 0, ps_hosts = 0, worker_hosts = 1\<rparr> [[''h3:2224''], [''h1:2222'', ''h2:2222'']]) = Inr d \<and> d \<noteq> PDict []"
    by (simp add: run_defs)
  show ?thesis
    using opts_lists_after_call[OF a b] a b c d by simp
qed

text \<open>
  C3 as stated fails: after the call of worker 0 the worker list of \<open>opts\<close> starts with
  \<open>'localhost:2222'\<close>.
\<close>

theorem opts_mutated_counterexample:
  "final (make_tf_config \<lparr>job_name = Some ''worker'', task_index = 0, ps_hosts = 0, worker_hosts = 1\<rparr> [[''h3:2224''], [''h1:2222'', ''h2:2222'']]) ! worker_hosts \<lparr>job_name = Some ''worker'', task_index = 0, ps_hosts = 0, worker_hosts = 1\<rparr> = [''localhost:2222'', ''h2:2222''] \<and>
   [[''h3:2224''], [''h1:2222'', ''h2:2222'']] ! worker_hosts \<lparr>job_name = Some ''worker'', task_index = 0, ps_hosts = 0, worker_hosts = 1\<rparr> = [''h1:2222'', ''h2:2222'']"
  by (simp add: run_defs)

text \<open>
  C4. When at least one but not all of the three settings are present, the call returns the
  empty descriptor and warns. The warnings are the opening message, one message for each
  missing setting and for no other, and the closing message: the \<open>job_name\<close> message is there
  exactly when \<open>job_name\<close> is missing, a message that starts with \<open>Expected ps_hosts\<close>
  exactly when \<open>ps_hosts\<close> is, a message that starts with \<open>Expected worker_hosts\<close> exactly
  when \<open>worker_hosts\<close> is.
\<close>

theorem incomplete_warns:
  assumes "valid_opts h opts" "incomplete h opts"
  shows "result (make_tf_config opts h) = Inr (PDict []) \<and>
         warned (make_tf_config opts h) \<noteq> [] \<and>
         warned (make_tf_config opts h) =
           [warn_incomplete]
           @ (if job_name opts = None then [warn_job_name None] else [])
           @ (if h ! ps_hosts opts = [] then [warn_ps_hosts []] else [])
           @ (if h ! worker_hosts opts = [] then [warn_worker_hosts []] else [])
           @ [warn_single] \<and>
         (job_name opts = None \<longleftrightarrow>
            ''Expected job_name of worker or ps. Received None.''
              \<in> set (warned (make_tf_config opts h))) \<and>
         (h ! ps_hosts opts = [] \<longleftrightarrow>
            (\<exists>rest. (''Expected ps_hosts, list of hostname:port pairs. Got []. '' @ rest)
                       \<in> set (warned (make_tf_config opts h)))) \<and>
         (h ! worker_hosts opts = [] \<longleftrightarrow>
            (\<exists>rest. (''Expected worker_hosts, list of hostname:port pairs. Got []. '' @ rest)
                       \<in> set (warned (make_tf_config opts h))))"
proof -
  have w: "warned (make_tf_config opts h) =
           [warn_incomplete]
           @ (if job_name opts = None then [warn_job_name None] else [])
           @ (if h ! ps_hosts opts = [] then [warn_ps_hosts []] else [])
           @ (if h ! worker_hosts opts = [] then [warn_worker_hosts []] else [])
           @ [warn_single]"
    using assms(2) by (auto simp: make_tf_config_def incomplete_def incomplete_warnings_def)
  have r: "result (make_tf_config opts h) = Inr (PDict [])"
    using assms(2) by (auto simp: make_tf_config_def incomplete_def)
  have n: "warned (make_tf_config opts h) \<noteq> []" by (simp add: w)
  have j: "job_name opts = None \<longleftrightarrow>
            ''Expected job_name of worker or ps. Received None.''
              \<in> set (warned (make_tf_config opts h))"
    by (simp add: w warn_incomplete_def warn_job_name_def warn_ps_hosts_def warn_worker_hosts_def
        warn_single_def format_job_name_def format_hosts_def)
  have p: "h ! ps_hosts opts = [] \<longleftrightarrow>
            (\<exists>rest. (''Expected ps_hosts, list of hostname:port pairs. Got []. '' @ rest)
                       \<in> set (warned (make_tf_config opts h)))"
    by (simp add: w warn_incomplete_def warn_job_name_def warn_ps_hosts_def warn_worker_hosts_def
        warn_single_def format_job_name_def format_hosts_def)
  have k: "h ! worker_hosts opts = [] \<longleftrightarrow>
            (\<exists>rest. (''Expected worker_hosts, list of hostname:port pairs. Got []. '' @ rest)
                       \<in> set (warned (make_tf_config opts h)))"
    by (simp add: w warn_incomplete_def warn_job_name_def warn_ps_hosts_def warn_worker_hosts_def
        warn_single_def format_job_name_def format_hosts_def)
  show ?thesis by (intro conjI r n w j p k)
qed

text \<open>
  The theorem where only the worker list is given: the two missing settings are named, the
  worker list is not.
\<close>

theorem incomplete_warns_witness:
  "valid_opts [[], [''h1:2222'']] \<lparr>job_name = None, task_index = 0, ps_hosts = 0, worker_hosts = 1\<rparr> \<and> incomplete [[], [''h1:2222'']] \<lparr>job_name = None, task_index = 0, ps_hosts = 0, worker_hosts = 1\<rparr> \<and>
   result (make_tf_config \<lparr>job_name = None, task_index = 0, ps_hosts = 0, worker_hosts = 1\<rparr> [[], [''h1:2222'']]) = Inr (PDict []) \<and>
   warned (make_tf_config \<lparr>job_name = None, task_index = 0, ps_hosts = 0, worker_hosts = 1\<rparr> [[], [''h1:2222'']]) =
     [warn_incomplete, warn_job_name None, warn_ps_hosts [], warn_single]"
proof -
  have a: "valid_opts [[], [''h1:2222'']] \<lparr>job_name = None, task_index = 0, ps_hosts = 0, worker_hosts = 1\<rparr>" by (simp add: valid_opts_def)
  have b: "incomplete [[], [''h1:2222'']] \<lparr>job_name = None, task_index = 0, ps_hosts = 0, worker_hosts = 1\<rparr>" by (simp add: incomplete_def)
  show ?thesis
    using incomplete_warns[OF a b] a b by simp
qed

text \<open>
  C5. With \<open>job_name\<close> set and both host lists non-empty, the call never returns the empty
  descriptor: it returns a descriptor with entries or raises.
\<close>

theorem complete_never_empty:
  assumes v: "valid_opts h opts" and c: "complete h opts"
  shows "result (make_tf_config opts h) \<noteq> Inr (PDict [])"
proof
  assume e: "result (make_tf_config opts h) = Inr (PDict [])"
  show False
    by (rule returned_cases[OF v c e]) (simp add: descriptor_def)
qed

theorem complete_never_empty_witness:
  "valid_opts [[''h3:2224''], [''h1:2222'', ''h2:2222'']] \<lparr>job_name = Some ''worker'', task_index = 0, ps_hosts = 0, worker_hosts = 1\<rparr> \<and> complete [[''h3:2224''], [''h1:2222'', ''h2:2222'']] \<lparr>job_name = Some ''worker'', task_index = 0, ps_hosts = 0, worker_hosts = 1\<rparr> \<and>
   result (make_tf_config \<lparr>job_name = Some ''worker'', task_index = 0, ps_hosts = 0, worker_hosts = 1\<rparr> [[''h3:2224''], [''h1:2222'', ''h2:2222'']]) \<noteq> Inr (PDict [])"
proof -
  have a: "valid_opts [[''h3:2224''], [''h1:2222'', ''h2:2222'']] \<lparr>job_name = Some ''worker'', task_index = 0, ps_hosts = 0, worker_hosts = 1\<rparr>" by (simp add: valid_opts_def)
  have b: "complete [[''h3:2224''], [''h1:2222'', ''h2:2222'']] \<lparr>job_name = Some ''worker'', task_index = 0, ps_hosts = 0, worker_hosts = 1\<rparr>" by (simp add: complete_def)
  show ?thesis
    using complete_never_empty[OF a b] a b by simp
qed

text \<open>
  C6. With \<open>job_name\<close> \<open>None\<close> and both host lists empty, the call returns exactly \<open>{}\<close>,
  warns nothing and leaves the heap as it was.
\<close>

theorem single_mode_empty:
  assumes "valid_opts h opts" "job_name opts = None"
    "h ! ps_hosts opts = []" "h ! worker_hosts opts = []"
  shows "make_tf_config opts h = \<lparr>result = Inr (PDict []), warned = [], final = h\<rparr>"
  using assms by (simp add: make_tf_config_def)

theorem single_mode_empty_witness:
  "valid_opts [[], []] \<lparr>job_name = None, task_index = 0, ps_hosts = 0, worker_hosts = 1\<rparr> \<and> job_name \<lparr>job_name = None, task_index = 0, ps_hosts = 0, worker_hosts = 1\<rparr> = None \<and>
   [[], []] ! ps_hosts \<lparr>job_name = None, task_index = 0, ps_hosts = 0, worker_hosts = 1\<rparr> = ([] :: string list) \<and> [[], []] ! worker_hosts \<lparr>job_name = None, task_index = 0, ps_hosts = 0, worker_hosts = 1\<rparr> = ([] :: string list) \<and>
   make_tf_config \<lparr>job_name = None, task_index = 0, ps_hosts = 0, worker_hosts = 1\<rparr> [[], []] = \<lparr>result = Inr (PDict []), warned = [], final = [[], []]\<rparr>"
proof -
  have a: "valid_opts [[], []] \<lparr>job_name = None, task_index = 0, ps_hosts = 0, worker_hosts = 1\<rparr>" by (simp add: valid_opts_def)
  have b: "job_name \<lparr>job_name = None, task_index = 0, ps_hosts = 0, worker_hosts = 1\<rparr> = None" by simp
  have c: "[[], []] ! ps_hosts \<lparr>job_name = None, task_index = 0, ps_hosts = 0, worker_hosts = 1\<rparr> = ([] :: string list)" by simp
  have d: "[[], []] ! worker_hosts \<lparr>job_name = None, task_index = 0, ps_hosts = 0, worker_hosts = 1\<rparr> = ([] :: string list)" by simp
  show ?thesis
    using single_mode_empty[OF a b c d] a by simp
qed


text \<open>
  C7. \<open>parse_args\<close> makes the two host lists by two calls of \<open>split\<close> (lines 86 to 94), so
  they are two objects. Then, in a returned descriptor, the list under the key \<open>job_name\<close>
  holds at \<open>task_index\<close> the string \<open>'localhost:'\<close> followed by the port of the original
  entry there, and every other entry of the worker list and of the ps list is the original
  one.
\<close>

theorem own_entry_localhost:
  assumes v: "valid_opts h opts" and s: "ps_hosts opts \<noteq> worker_hosts opts"
    and c: "complete h opts" and res: "result (make_tf_config opts h) = Inr d"
  shows "\<exists>name orig j port new ws' ps'.
           job_name opts = Some name \<and> role_list h opts = Some orig \<and>
           py_index orig (task_index opts) = Some j \<and>
           list_getitem (split (orig ! j) CHR '':'') 1 = Inr port \<and>
           cluster_list (final (make_tf_config opts h)) d name = Some new \<and>
           list_getitem new (task_index opts) = Inr (''localhost:'' @ port) \<and>
           cluster_list (final (make_tf_config opts h)) d ''worker'' = Some ws' \<and>
           length ws' = length (h ! worker_hosts opts) \<and>
           (\<forall>k<length ws'. \<not> (name = ''worker'' \<and> k = j) \<longrightarrow> ws' ! k = h ! worker_hosts opts ! k) \<and>
           cluster_list (final (make_tf_config opts h)) d ''ps'' = Some ps' \<and>
           length ps' = length (h ! ps_hosts opts) \<and>
           (\<forall>k<length ps'. \<not> (name = ''ps'' \<and> k = j) \<longrightarrow> ps' ! k = h ! ps_hosts opts ! k)"
proof -
  from v c res obtain xs j port where
    xs: "role_list h opts = Some xs" and
    j: "py_index xs (task_index opts) = Some j" and
    p: "list_getitem (split (xs ! j) CHR '':'') 1 = Inr port" and
    d: "d = descriptor
           [(''type'', if job_name opts = Some ''worker'' \<and> task_index opts = 0
                       then PStr ''master'' else job_value (job_name opts)),
            (''index'', PInt (task_index opts))]
           [(''master'', length h), (''worker'', worker_hosts opts), (''ps'', ps_hosts opts)]" and
    f: "final (make_tf_config opts h) =
       (let h2 = (h @ [[h ! worker_hosts opts ! 0]])[target h opts := xs[j := ''localhost:'' @ port]]
        in if job_name opts = Some ''worker'' \<and> task_index opts = 0
           then h2[length h := [''localhost:'' @ port]] else h2)"
    by (rule returned_cases)
  let ?lip = "''localhost:'' @ port"
  let ?h' = "final (make_tf_config opts h)"
  have jl: "j < length xs" using j by (rule py_index_less)
  have pw: "worker_hosts opts < length h" and pp: "ps_hosts opts < length h"
    using v by (simp_all add: valid_opts_def)
  have old: "?h' ! r = (if target h opts = r then xs[j := ?lip] else h ! r)" if "r < length h" for r
    using that by (simp add: f Let_def nth_append nth_list_update)
  have cw: "cluster_list ?h' d ''worker'' = Some (?h' ! worker_hosts opts)"
    and cp: "cluster_list ?h' d ''ps'' = Some (?h' ! ps_hosts opts)"
    and cm: "cluster_list ?h' d ''master'' = Some (?h' ! length h)"
    by (simp_all add: d cluster_list_def descriptor_def)
  have idx: "list_getitem (xs[j := ?lip]) (task_index opts) = Inr ?lip"
    using j jl by (simp add: list_getitem_def py_index_def Let_def split: if_splits)
  consider (master) "job_name opts = Some ''master''"
    | (worker) "job_name opts = Some ''worker''"
    | (ps) "job_name opts = Some ''ps''"
    using xs by (auto simp: role_list_def split: if_splits)
  then show ?thesis
  proof cases
    case master
    have t: "target h opts = length h" using master by (simp add: target_def own_ref_def)
    have "?h' ! length h = xs[j := ?lip]" using master by (simp add: f t Let_def)
    moreover have "?h' ! worker_hosts opts = h ! worker_hosts opts"
      using pw by (simp add: old t)
    moreover have "?h' ! ps_hosts opts = h ! ps_hosts opts"
      using pp by (simp add: old t)
    ultimately show ?thesis using master xs j p idx cw cp cm by simp
  next
    case worker
    have t: "target h opts = worker_hosts opts" using worker by (simp add: target_def own_ref_def)
    have x: "xs = h ! worker_hosts opts" using xs worker by (simp add: role_list_def)
    have "?h' ! worker_hosts opts = xs[j := ?lip]" using pw by (simp add: old t)
    moreover have "?h' ! ps_hosts opts = h ! ps_hosts opts"
      using pp s by (simp add: old t)
    ultimately show ?thesis using worker xs j p idx cw cp x by simp
  next
    case ps
    have t: "target h opts = ps_hosts opts" using ps by (simp add: target_def own_ref_def)
    have x: "xs = h ! ps_hosts opts" using xs ps by (simp add: role_list_def)
    have "?h' ! ps_hosts opts = xs[j := ?lip]" using pp by (simp add: old t)
    moreover have "?h' ! worker_hosts opts = h ! worker_hosts opts"
      using pw s by (simp add: old t)
    ultimately show ?thesis using ps xs j p idx cw cp x by simp
  qed
qed

text \<open>The theorem at worker 1 of a two-worker cluster, read off the worker list.\<close>

theorem own_entry_localhost_witness:
  "valid_opts [[''h3:2224''], [''h1:2222'', ''h2:2222'']] \<lparr>job_name = Some ''worker'', task_index = 1, ps_hosts = 0, worker_hosts = 1\<rparr> \<and> ps_hosts \<lparr>job_name = Some ''worker'', task_index = 1, ps_hosts = 0, worker_hosts = 1\<rparr> \<noteq> worker_hosts \<lparr>job_name = Some ''worker'', task_index = 1, ps_hosts = 0, worker_hosts = 1\<rparr> \<and> complete [[''h3:2224''], [''h1:2222'', ''h2:2222'']] \<lparr>job_name = Some ''worker'', task_index = 1, ps_hosts = 0, worker_hosts = 1\<rparr> \<and>
   result (make_tf_config \<lparr>job_name = Some ''worker'', task_index = 1, ps_hosts = 0, worker_hosts = 1\<rparr> [[''h3:2224''], [''h1:2222'', ''h2:2222'']]) = Inr (PDict [(''task'', PDict [(''type'', PStr ''worker''), (''index'', PInt 1)]), (''cluster'', PDict [(''master'', PList 2), (''worker'', PList 1), (''ps'', PList 0)]), (''environment'', PStr ''cloud'')]) \<and>
   cluster_list (final (make_tf_config \<lparr>job_name = Some ''worker'', task_index = 1, ps_hosts = 0, worker_hosts = 1\<rparr> [[''h3:2224''], [''h1:2222'', ''h2:2222'']])) (PDict [(''task'', PDict [(''type'', PStr ''worker''), (''index'', PInt 1)]), (''cluster'', PDict [(''master'', PList 2), (''worker'', PList 1), (''ps'', PList 0)]), (''environment'', PStr ''cloud'')]) ''worker'' = Some [''h1:2222'', ''localhost:2222''] \<and>
   cluster_list (final (make_tf_config \<lparr>job_name = Some ''worker'', task_index = 1, ps_hosts = 0, worker_hosts = 1\<rparr> [[''h3:2224''], [''h1:2222'', ''h2:2222'']])) (PDict [(''task'', PDict [(''type'', PStr ''worker''), (''index'', PInt 1)]), (''cluster'', PDict [(''master'', PList 2), (''worker'', PList 1), (''ps'', PList 0)]), (''environment'', PStr ''cloud'')]) ''ps'' = Some [''h3:2224'']"
proof -
  have a: "valid_opts [[''h3:2224''], [''h1:2222'', ''h2:2222'']] \<lparr>job_name = Some ''worker'', task_index = 1, ps_hosts = 0, worker_hosts = 1\<rparr>" by (simp add: valid_opts_def)
  have b: "ps_hosts \<lparr>job_name = Some ''worker'', task_index = 1, ps_hosts = 0, worker_hosts = 1\<rparr> \<noteq> worker_hosts \<lparr>job_name = Some ''worker'', task_index = 1, ps_hosts = 0, worker_hosts = 1\<rparr>" by simp
  have c: "complete [[''h3:2224''], [''h1:2222'', ''h2:2222'']] \<lparr>job_name = Some ''worker'', task_index = 1, ps_hosts = 0, worker_hosts = 1\<rparr>" by (simp add: complete_def)
  have d: "result (make_tf_config \<lparr>job_name = Some ''worker'', task_index = 1, ps_hosts = 0, worker_hosts = 1\<rparr> [[''h3:2224''], [''h1:2222'', ''h2:2222'']]) = Inr (PDict [(''task'', PDict [(''type'', PStr ''worker''), (''index'', PInt 1)]), (''cluster'', PDict [(''master'', PList 2), (''worker'', PList 1), (''ps'', PList 0)]), (''environment'', PStr ''cloud'')])" by (simp add: run_defs)
  have e: "final (make_tf_config \<lparr>job_name = Some ''worker'', task_index = 1, ps_hosts = 0, worker_hosts = 1\<rparr> [[''h3:2224''], [''h1:2222'', ''h2:2222'']]) = [[''h3:2224''], [''h1:2222'', ''localhost:2222''], [''h1:2222'']]"
    by (simp add: run_defs)
  have f: "cluster_list (final (make_tf_config \<lparr>job_name = Some ''worker'', task_index = 1, ps_hosts = 0, worker_hosts = 1\<rparr> [[''h3:2224''], [''h1:2222'', ''h2:2222'']])) (PDict [(''task'', PDict [(''type'', PStr ''worker''), (''index'', PInt 1)]), (''cluster'', PDict [(''master'', PList 2), (''worker'', PList 1), (''ps'', PList 0)]), (''environment'', PStr ''cloud'')]) ''worker'' = Some [''h1:2222'', ''localhost:2222'']"
    using e by (simp add: cluster_list_def)
  have g: "cluster_list (final (make_tf_config \<lparr>job_name = Some ''worker'', task_index = 1, ps_hosts = 0, worker_hosts = 1\<rparr> [[''h3:2224''], [''h1:2222'', ''h2:2222'']])) (PDict [(''task'', PDict [(''type'', PStr ''worker''), (''index'', PInt 1)]), (''cluster'', PDict [(''master'', PList 2), (''worker'', PList 1), (''ps'', PList 0)]), (''environment'', PStr ''cloud'')]) ''ps'' = Some [''h3:2224'']"
    using e by (simp add: cluster_list_def)
  show ?thesis
    using own_entry_localhost[OF a b c d]
    by (elim exE conjE) (intro conjI a b c d f g)
qed

text \<open>
  C8. The example of the spec: worker 0 of two workers and one parameter server.
\<close>

theorem example_worker_zero:
  "\<exists>d h'. make_tf_config \<lparr>job_name = Some ''worker'', task_index = 0, ps_hosts = 0, worker_hosts = 1\<rparr> [[''h3:2224''], [''h1:2222'', ''h2:2222'']] = \<lparr>result = Inr d, warned = [], final = h'\<rparr> \<and>
     task_type d = Some (PStr ''master'') \<and>
     cluster_list h' d ''master'' = Some [''localhost:2222''] \<and>
     cluster_list h' d ''worker'' = Some [''localhost:2222'', ''h2:2222'']"
  by (simp add: run_defs task_type_def cluster_list_def)

text \<open>
  C10. A returned descriptor that is not \<open>{}\<close> has, next to \<open>'task'\<close> and \<open>'cluster'\<close>, the key
  \<open>'environment'\<close> with the value \<open>'cloud'\<close>.
\<close>

theorem environment_cloud:
  assumes v: "valid_opts h opts" and r: "result (make_tf_config opts h) = Inr d"
    and ne: "d \<noteq> PDict []"
  shows "dict_get d ''environment'' = Some (PStr ''cloud'') \<and>
         dict_get d ''task'' \<noteq> None \<and> dict_get d ''cluster'' \<noteq> None"
proof -
  have c: "complete h opts"
    using not_complete_empty[of h opts] r ne by auto
  show ?thesis
    by (rule returned_cases[OF v c r]) (simp add: descriptor_def)
qed

theorem environment_cloud_witness:
  "valid_opts [[''h3:2224''], [''h1:2222'', ''h2:2222'']] \<lparr>job_name = Some ''ps'', task_index = 0, ps_hosts = 0, worker_hosts = 1\<rparr> \<and> result (make_tf_config \<lparr>job_name = Some ''ps'', task_index = 0, ps_hosts = 0, worker_hosts = 1\<rparr> [[''h3:2224''], [''h1:2222'', ''h2:2222'']]) = Inr (PDict [(''task'', PDict [(''type'', PStr ''ps''), (''index'', PInt 0)]), (''cluster'', PDict [(''master'', PList 2), (''worker'', PList 1), (''ps'', PList 0)]), (''environment'', PStr ''cloud'')]) \<and> PDict [(''task'', PDict [(''type'', PStr ''ps''), (''index'', PInt 0)]), (''cluster'', PDict [(''master'', PList 2), (''worker'', PList 1), (''ps'', PList 0)]), (''environment'', PStr ''cloud'')] \<noteq> PDict [] \<and>
   dict_get (PDict [(''task'', PDict [(''type'', PStr ''ps''), (''index'', PInt 0)]), (''cluster'', PDict [(''master'', PList 2), (''worker'', PList 1), (''ps'', PList 0)]), (''environment'', PStr ''cloud'')]) ''environment'' = Some (PStr ''cloud'')"
proof -
  have a: "valid_opts [[''h3:2224''], [''h1:2222'', ''h2:2222'']] \<lparr>job_name = Some ''ps'', task_index = 0, ps_hosts = 0, worker_hosts = 1\<rparr>" by (simp add: valid_opts_def)
  have b: "result (make_tf_config \<lparr>job_name = Some ''ps'', task_index = 0, ps_hosts = 0, worker_hosts = 1\<rparr> [[''h3:2224''], [''h1:2222'', ''h2:2222'']]) = Inr (PDict [(''task'', PDict [(''type'', PStr ''ps''), (''index'', PInt 0)]), (''cluster'', PDict [(''master'', PList 2), (''worker'', PList 1), (''ps'', PList 0)]), (''environment'', PStr ''cloud'')])" by (simp add: run_defs)
  have c: "PDict [(''task'', PDict [(''type'', PStr ''ps''), (''index'', PInt 0)]), (''cluster'', PDict [(''master'', PList 2), (''worker'', PList 1), (''ps'', PList 0)]), (''environment'', PStr ''cloud'')] \<noteq> PDict []" by simp
  show ?thesis
    using environment_cloud[OF a b c] a b c by simp
qed

section \<open>Claims about parse_args\<close>

text \<open>
  C9. The default of \<open>--hidden_units\<close>, \<open>'32,64'\<close>, parses to the list \<open>[32, 64]\<close>.
\<close>

theorem hidden_units_default:
  "parse_hidden_units ''32,64'' = Inr [32, 64]"
  by (simp add: parse_hidden_units_def split_def py_int_def strip_def is_space_def is_digit_def
      digit_val_def)

end
